theory Spec2Isabelle
  imports Complex_Main "HOL-Library.Sublist" "HOL-Library.Char_ord" "HOL-Library.List_Lexorder"
begin

section \<open>Air-quality dashboard: values, readings and errors\<close>

text \<open>
  The dashboard (\<^verbatim>\<open>dashboard_calidad_aire.py\<close> and its earlier variant without the
  prediction screen) reads rows of the table \<^verbatim>\<open>mediciones\<close> into a pandas DataFrame,
  filters them, aggregates them and classifies AQI numbers into severity bands.

  A Python value that reaches \<^verbatim>\<open>get_aqi_category_info\<close> is \<^verbatim>\<open>None\<close>, the float NaN,
  one of the two float infinities, or a finite number. Finite floats and ints are
  modelled by the reals they denote: every comparison of the source compares a value
  with an integer literal, which is exact on floats.
\<close>

datatype pyval = PyNone | NaN | NegInf | Num real | PosInf

datatype py_error = TypeError

type_synonym category_info = "string \<times> string \<times> string"

text \<open>\<^verbatim>\<open>pd.isna\<close> on a scalar: true for \<^verbatim>\<open>None\<close> and NaN, false for every other number
  (infinities included).\<close>

fun isna :: "pyval \<Rightarrow> bool" where
  "isna PyNone = True"
| "isna NaN = True"
| "isna NegInf = False"
| "isna (Num x) = False"
| "isna PosInf = False"

text \<open>\<^verbatim>\<open>aqi <= c\<close> for a numeric literal \<^verbatim>\<open>c\<close>: Python raises TypeError when the left
  operand is \<^verbatim>\<open>None\<close>; every comparison with NaN is false.\<close>

fun py_le :: "pyval \<Rightarrow> real \<Rightarrow> py_error + bool" where
  "py_le PyNone c = Inl TypeError"
| "py_le NaN c = Inr False"
| "py_le NegInf c = Inr True"
| "py_le (Num x) c = Inr (x \<le> c)"
| "py_le PosInf c = Inr False"

text \<open>An \<^verbatim>\<open>if\<close>/\<^verbatim>\<open>elif\<close> whose test may raise: the error leaves the function.\<close>

definition py_if :: "py_error + bool \<Rightarrow> (py_error + 'a) \<Rightarrow> (py_error + 'a) \<Rightarrow> py_error + 'a" where
  "py_if t a b = (case t of Inl e \<Rightarrow> Inl e | Inr c \<Rightarrow> (if c then a else b))"

text \<open>The symbols of the source are single non-ASCII characters; they are written here
  as their UTF-8 bytes (U+26AA, U+1F7E2, U+1F7E1, U+1F7E0, U+1F534, U+1F7E3, U+1F7E4).\<close>

definition sym_white :: string where "sym_white = [CHR 0xE2, CHR 0x9A, CHR 0xAA]"
definition sym_green :: string where "sym_green = [CHR 0xF0, CHR 0x9F, CHR 0x9F, CHR 0xA2]"
definition sym_yellow :: string where "sym_yellow = [CHR 0xF0, CHR 0x9F, CHR 0x9F, CHR 0xA1]"
definition sym_orange :: string where "sym_orange = [CHR 0xF0, CHR 0x9F, CHR 0x9F, CHR 0xA0]"
definition sym_red :: string where "sym_red = [CHR 0xF0, CHR 0x9F, CHR 0x94, CHR 0xB4]"
definition sym_purple :: string where "sym_purple = [CHR 0xF0, CHR 0x9F, CHR 0x9F, CHR 0xA3]"
definition sym_brown :: string where "sym_brown = [CHR 0xF0, CHR 0x9F, CHR 0x9F, CHR 0xA4]"

definition get_aqi_category_info :: "pyval \<Rightarrow> py_error + category_info" where
  "get_aqi_category_info aqi =
     (if isna aqi \<or> aqi = PyNone then Inr (''Unknown'', ''#808080'', sym_white)
      else py_if (py_le aqi 50) (Inr (''Good'', ''#00E400'', sym_green))
          (py_if (py_le aqi 100) (Inr (''Moderate'', ''#FFFF00'', sym_yellow))
          (py_if (py_le aqi 150) (Inr (''Unhealthy for Sensitive Groups'', ''#FF7E00'', sym_orange))
          (py_if (py_le aqi 200) (Inr (''Unhealthy'', ''#FF0000'', sym_red))
          (py_if (py_le aqi 300) (Inr (''Very Unhealthy'', ''#8F3F97'', sym_purple))
                                 (Inr (''Hazardous'', ''#7E0023'', sym_brown)))))))"

text \<open>Python's \<^verbatim>\<open><=\<close> between two numeric values (neither \<^verbatim>\<open>None\<close> nor NaN), used to
  state monotonicity.\<close>

fun is_numeric :: "pyval \<Rightarrow> bool" where
  "is_numeric PyNone = False"
| "is_numeric NaN = False"
| "is_numeric NegInf = True"
| "is_numeric (Num x) = True"
| "is_numeric PosInf = True"

fun num_le :: "pyval \<Rightarrow> pyval \<Rightarrow> bool" where
  "num_le NegInf v = is_numeric v"
| "num_le (Num x) (Num y) = (x \<le> y)"
| "num_le (Num x) PosInf = True"
| "num_le PosInf PosInf = True"
| "num_le u v = False"

text \<open>The severity rank of the six named bands, in the order the specification lists
  them; \<^verbatim>\<open>Unknown\<close> (and any other text) has no rank.\<close>

definition severity_rank :: "string \<Rightarrow> nat option" where
  "severity_rank name =
     (if name = ''Good'' then Some 0
      else if name = ''Moderate'' then Some 1
      else if name = ''Unhealthy for Sensitive Groups'' then Some 2
      else if name = ''Unhealthy'' then Some 3
      else if name = ''Very Unhealthy'' then Some 4
      else if name = ''Hazardous'' then Some 5
      else None)"

text \<open>The rank of the band a value is classified into (\<^term>\<open>None\<close> when the classifier
  raises or answers \<^verbatim>\<open>Unknown\<close>).\<close>

definition rank_of :: "pyval \<Rightarrow> nat option" where
  "rank_of v = (case get_aqi_category_info v of Inl e \<Rightarrow> None | Inr (name, color, symbol) \<Rightarrow> severity_rank name)"


section \<open>Readings and the filter block\<close>

text \<open>
  One row of \<^verbatim>\<open>mediciones\<close> as \<^verbatim>\<open>fetch_latest_readings\<close> selects it. The key
  \<^verbatim>\<open>id\<close> and the timestamp \<^verbatim>\<open>fecha\<close> are always present; every other column may be
  SQL NULL, which pandas holds as \<^verbatim>\<open>None\<close>/NaN (\<^term>\<open>None\<close> here). A DataFrame is the
  list of its rows in positional order.
\<close>

record reading =
  id_col :: nat
  fecha :: int
  ciudad :: "string option"
  estado :: "string option"
  latitud :: "real option"
  longitud :: "real option"
  contaminante :: "string option"
  aqi :: "real option"
  categoria :: "string option"

text \<open>The filter block of the dashboard loop: each selector is the sentinel
  \<^verbatim>\<open>"Todos"\<close> or a value compared with \<^verbatim>\<open>==\<close> against the column (a null cell equals
  no selector).\<close>

definition apply_filters :: "string \<Rightarrow> string \<Rightarrow> reading list \<Rightarrow> reading list" where
  "apply_filters estado_seleccionado contaminante_seleccionado df =
     (let df_filtered = df;
          df_filtered = (if estado_seleccionado \<noteq> ''Todos''
                         then filter (\<lambda>r. estado r = Some estado_seleccionado) df_filtered
                         else df_filtered);
          df_filtered = (if contaminante_seleccionado \<noteq> ''Todos''
                         then filter (\<lambda>r. contaminante r = Some contaminante_seleccionado) df_filtered
                         else df_filtered)
      in df_filtered)"

section \<open>The aggregations of one cycle\<close>

text \<open>The non-null cells of a column, in order (pandas skips nulls in \<^verbatim>\<open>mean\<close>,
  \<^verbatim>\<open>max\<close>, \<^verbatim>\<open>nunique\<close> and \<^verbatim>\<open>value_counts\<close>).\<close>

fun dropna :: "'a option list \<Rightarrow> 'a list" where
  "dropna [] = []"
| "dropna (None # col) = dropna col"
| "dropna (Some v # col) = v # dropna col"

text \<open>\<^verbatim>\<open>Series.mean()\<close> and \<^verbatim>\<open>Series.max()\<close>: over the non-null cells, NaN when there is
  none. The float sum and division are modelled by the exact real ones.\<close>

definition series_mean :: "real option list \<Rightarrow> pyval" where
  "series_mean col =
     (let vals = dropna col in if vals = [] then NaN else Num (sum_list vals / real (length vals)))"

definition series_max :: "real option list \<Rightarrow> pyval" where
  "series_max col = (case dropna col of [] \<Rightarrow> NaN | v # vals \<Rightarrow> Num (fold max vals v))"

definition nunique :: "'a option list \<Rightarrow> nat" where
  "nunique col = length (remdups (dropna col))"

record overall_metrics =
  avg_aqi :: pyval
  avg_category :: "py_error + category_info"
  max_aqi :: pyval
  total_lecturas :: nat
  ciudades :: nat
  estados :: nat

definition metrics :: "reading list \<Rightarrow> overall_metrics" where
  "metrics df_filtered =
     \<lparr> avg_aqi = series_mean (map aqi df_filtered),
       avg_category = get_aqi_category_info (series_mean (map aqi df_filtered)),
       max_aqi = series_max (map aqi df_filtered),
       total_lecturas = length df_filtered,
       ciudades = nunique (map ciudad df_filtered),
       estados = nunique (map estado df_filtered) \<rparr>"

text \<open>\<^verbatim>\<open>Series.value_counts()\<close>: one entry per distinct non-null value with the number of
  its occurrences, the largest count first. pandas does not fix the order among equal
  counts; here they keep the order of first appearance. No statement below depends on
  the order of the entries.\<close>

definition value_counts :: "'a option list \<Rightarrow> ('a \<times> nat) list" where
  "value_counts col =
     (let vals = dropna col
      in sort_key (\<lambda>(v, n). - int n) (map (\<lambda>v. (v, count_list vals v)) (rev (remdups (rev vals)))))"

text \<open>The loop over \<^verbatim>\<open>categoria_counts.items()\<close>: label, count and
  \<^verbatim>\<open>count / len(df_filtered) * 100\<close>. The loop body runs only for labels that occur, so
  the divisor is positive whenever the division is evaluated.\<close>

definition categoria_counts :: "reading list \<Rightarrow> (string \<times> nat \<times> real) list" where
  "categoria_counts df_filtered =
     map (\<lambda>(cat, count). (cat, count, real count / real (length df_filtered) * 100))
       (value_counts (map categoria df_filtered))"

definition pct_total :: "(string \<times> nat \<times> real) list \<Rightarrow> real" where
  "pct_total entries = sum_list (map (\<lambda>(cat, count, pct). pct) entries)"

text \<open>
  \<^verbatim>\<open>df_filtered.sort_values('fecha').groupby('ciudad').last().reset_index()\<close>.
  \<^verbatim>\<open>groupby\<close> drops the rows whose key is null and orders the groups by key; within a
  group the rows keep the sorted order. \<^verbatim>\<open>GroupBy.last()\<close> computes, for each column
  separately, the last entry of the group that is not null (pandas: "Compute the last
  entry of each column within each group. Defaults to skipping NA elements"); a column
  that is null throughout the group stays null. \<^verbatim>\<open>sort_values\<close> is modelled by the stable
  insertion sort on the timestamp; pandas' default sort kind does not promise an order
  among equal timestamps.
\<close>

definition last_valid :: "'a option \<Rightarrow> 'a option \<Rightarrow> 'a option" where
  "last_valid earlier later = (case later of None \<Rightarrow> earlier | Some v \<Rightarrow> Some v)"

definition combine_last :: "reading \<Rightarrow> reading \<Rightarrow> reading" where
  "combine_last r acc =
     \<lparr> id_col = id_col r,
       fecha = fecha r,
       ciudad = ciudad acc,
       estado = last_valid (estado acc) (estado r),
       latitud = last_valid (latitud acc) (latitud r),
       longitud = last_valid (longitud acc) (longitud r),
       contaminante = last_valid (contaminante acc) (contaminante r),
       aqi = last_valid (aqi acc) (aqi r),
       categoria = last_valid (categoria acc) (categoria r) \<rparr>"

definition group_last :: "reading list \<Rightarrow> reading list" where
  "group_last rows = (case rows of [] \<Rightarrow> [] | r # later \<Rightarrow> [fold combine_last later r])"

definition df_map :: "reading list \<Rightarrow> reading list" where
  "df_map df_filtered =
     (let by_fecha = sort_key fecha df_filtered;
          keys = sort (remdups (dropna (map ciudad by_fecha)))
      in concat (map (\<lambda>k. group_last (filter (\<lambda>r. ciudad r = Some k) by_fecha)) keys))"

section \<open>The refresh loop\<close>

text \<open>
  The sidebar settings the loop reads. The time window only selects what the store
  returns, so a run is given the results of the successive calls of
  \<^verbatim>\<open>fetch_latest_readings\<close>, one per cycle. What a cycle renders from the filtered rows
  is collected in a view; the charts themselves and the three further summary queries
  of the store belong to the rendering layer and are not part of it.
\<close>

record config =
  auto_refresh :: bool
  refresh_interval :: nat
  estado_seleccionado :: string
  contaminante_seleccionado :: string

record summary_view =
  view_metrics :: overall_metrics
  view_map :: "reading list"
  view_categorias :: "(string \<times> nat \<times> real) list"
  view_table :: "reading list"

datatype event = Warning string | Publish summary_view | Sleep nat

datatype cycle_end = Break | Rerun

definition msg_no_data :: string where
  "msg_no_data = [CHR 0xE2, CHR 0x9A, CHR 0xA0, CHR 0xEF, CHR 0xB8, CHR 0x8F]
     @ '' No hay datos disponibles para el per'' @ [CHR 0xC3, CHR 0xAD] @ ''odo seleccionado''"

definition msg_no_match :: string where
  "msg_no_match = [CHR 0xE2, CHR 0x9A, CHR 0xA0, CHR 0xEF, CHR 0xB8, CHR 0x8F]
     @ '' No hay datos que coincidan con los filtros seleccionados''"

definition render :: "reading list \<Rightarrow> summary_view" where
  "render df_filtered =
     \<lparr> view_metrics = metrics df_filtered,
       view_map = df_map df_filtered,
       view_categorias = categoria_counts df_filtered,
       view_table = take 20 df_filtered \<rparr>"

text \<open>One pass through the body of \<^verbatim>\<open>while True\<close>, with the way it is left: \<^verbatim>\<open>break\<close>,
  or \<^verbatim>\<open>time.sleep\<close> followed by \<^verbatim>\<open>st.rerun()\<close>, which starts the script (and so the
  next cycle) again.\<close>

definition selected :: "config \<Rightarrow> reading list \<Rightarrow> reading list" where
  "selected cfg df = apply_filters (estado_seleccionado cfg) (contaminante_seleccionado cfg) df"

definition dashboard_cycle :: "config \<Rightarrow> reading list \<Rightarrow> event list \<times> cycle_end" where
  "dashboard_cycle cfg df =
     (if df = [] then ([Warning msg_no_data], Break)
      else let df_filtered = selected cfg df
           in if df_filtered = [] then ([Warning msg_no_match], Break)
              else if \<not> auto_refresh cfg then ([Publish (render df_filtered)], Break)
              else ([Publish (render df_filtered), Sleep (refresh_interval cfg)], Rerun))"

text \<open>A run of the loop on the results of the successive fetches. The loop has no
  bound of its own: with auto-refresh on and data present it goes on for as long as the
  store answers, so a run over finitely many fetches is either halted by a \<^verbatim>\<open>break\<close> or
  still waiting for the next fetch. Each run carries the events of its cycles, one list
  per cycle.\<close>

datatype run = Halted "event list list" | Waiting "event list list"

fun cycles :: "run \<Rightarrow> event list list" where
  "cycles (Halted cs) = cs"
| "cycles (Waiting cs) = cs"

fun add_cycle :: "event list \<Rightarrow> run \<Rightarrow> run" where
  "add_cycle evs (Halted cs) = Halted (evs # cs)"
| "add_cycle evs (Waiting cs) = Waiting (evs # cs)"

fun dashboard_loop :: "config \<Rightarrow> reading list list \<Rightarrow> run" where
  "dashboard_loop cfg [] = Waiting []"
| "dashboard_loop cfg (df # later) =
     (case dashboard_cycle cfg df of
        (evs, Break) \<Rightarrow> Halted [evs]
      | (evs, Rerun) \<Rightarrow> add_cycle evs (dashboard_loop cfg later))"

fun is_publish :: "event \<Rightarrow> bool" where
  "is_publish (Publish view) = True"
| "is_publish e = False"

fun is_sleep :: "event \<Rightarrow> bool" where
  "is_sleep (Sleep n) = True"
| "is_sleep e = False"

section \<open>The prediction screen\<close>

text \<open>
  The two single-row feature tables \<^verbatim>\<open>data_modelo1\<close> and \<^verbatim>\<open>data_modelo2\<close>. A loaded
  model is a black box: \<^verbatim>\<open>model.predict(data)[0]\<close> either yields a number or raises an
  exception, of which the caller keeps \<^verbatim>\<open>str(e)\<close>.
\<close>

record data_modelo1 =
  f_ciudad :: string
  f_estado :: string
  f_contaminante :: string
  f_latitud :: real
  f_longitud :: real

record data_modelo2 = data_modelo1 +
  f_categoria :: string
  f_fecha :: int

datatype outcome = Returns real | Raises string

record models =
  modelo1 :: "(data_modelo1 \<Rightarrow> outcome) option"
  modelo2 :: "(data_modelo2 \<Rightarrow> outcome) option"

text \<open>The values stored in the dictionary \<^verbatim>\<open>predictions\<close>: a number, \<^verbatim>\<open>None\<close> or an
  error text. The dictionary is a map from its string keys.\<close>

datatype dval = DNum real | DNone | DStr string

type_synonym predictions = "string \<rightharpoonup> dval"

text \<open>\<^verbatim>\<open>predict_aqi\<close>. Next to the dictionary it returns, the model records which models
  were invoked, in order. \<^verbatim>\<open>now\<close> is the reading of the clock used when \<^verbatim>\<open>fecha\<close> is
  absent; an absent or empty \<^verbatim>\<open>categoria\<close> becomes \<^verbatim>\<open>'Good'\<close>.\<close>

definition mk_data_modelo1 :: "string \<Rightarrow> string \<Rightarrow> string \<Rightarrow> real \<Rightarrow> real \<Rightarrow> data_modelo1" where
  "mk_data_modelo1 ciudad_in estado_in contaminante_in latitud_in longitud_in =
     \<lparr> f_ciudad = ciudad_in, f_estado = estado_in, f_contaminante = contaminante_in,
       f_latitud = latitud_in, f_longitud = longitud_in \<rparr>"

definition mk_data_modelo2 ::
  "string \<Rightarrow> string \<Rightarrow> string \<Rightarrow> real \<Rightarrow> real \<Rightarrow> int option \<Rightarrow> string option \<Rightarrow> int \<Rightarrow> data_modelo2" where
  "mk_data_modelo2 ciudad_in estado_in contaminante_in latitud_in longitud_in fecha_in categoria_in now =
     \<lparr> f_ciudad = ciudad_in, f_estado = estado_in, f_contaminante = contaminante_in,
       f_latitud = latitud_in, f_longitud = longitud_in,
       f_categoria = (case categoria_in of None \<Rightarrow> ''Good'' | Some c \<Rightarrow> if c = [] then ''Good'' else c),
       f_fecha = (case fecha_in of None \<Rightarrow> now | Some t \<Rightarrow> t) \<rparr>"

definition predict_aqi ::
  "models \<Rightarrow> string \<Rightarrow> string \<Rightarrow> string \<Rightarrow> real \<Rightarrow> real \<Rightarrow> int option \<Rightarrow> string option \<Rightarrow> int
     \<Rightarrow> predictions \<times> string list" where
  "predict_aqi ms ciudad_in estado_in contaminante_in latitud_in longitud_in fecha_in categoria_in now =
     (let data1 = mk_data_modelo1 ciudad_in estado_in contaminante_in latitud_in longitud_in;
          data2 = mk_data_modelo2 ciudad_in estado_in contaminante_in latitud_in longitud_in
                    fecha_in categoria_in now;
          start = (Map.empty, []);
          after1 =
            (case modelo1 ms of
               None \<Rightarrow> start
             | Some m \<Rightarrow>
                 (case m data1 of
                    Returns pred1 \<Rightarrow> ((fst start)(''modelo1'' \<mapsto> DNum pred1), snd start @ [''modelo1''])
                  | Raises e \<Rightarrow> ((fst start)(''modelo1'' \<mapsto> DNone, ''modelo1_error'' \<mapsto> DStr e),
                                 snd start @ [''modelo1''])));
          after2 =
            (case modelo2 ms of
               None \<Rightarrow> after1
             | Some m \<Rightarrow>
                 (case m data2 of
                    Returns pred2 \<Rightarrow> ((fst after1)(''modelo2'' \<mapsto> DNum pred2), snd after1 @ [''modelo2''])
                  | Raises e \<Rightarrow> ((fst after1)(''modelo2'' \<mapsto> DNone, ''modelo2_error'' \<mapsto> DStr e),
                                 snd after1 @ [''modelo2''])))
      in after2)"

text \<open>\<^verbatim>\<open>predictions.get(key)\<close>: \<^verbatim>\<open>None\<close> for a missing key.\<close>

definition dict_get :: "predictions \<Rightarrow> string \<Rightarrow> dval" where
  "dict_get d k = (case d k of None \<Rightarrow> DNone | Some v \<Rightarrow> v)"

text \<open>The comparison block: it runs when both entries are not \<^verbatim>\<open>None\<close>. Subtracting
  or adding an entry that is not a number raises TypeError (\<^verbatim>\<open>predict_aqi\<close> never stores
  one under these keys). The three labels are the Spanish words of the interface:
  \<^verbatim>\<open>Alta\<close> (high), \<^verbatim>\<open>Media\<close> (medium), \<^verbatim>\<open>Baja\<close> (low).\<close>

record comparison =
  avg_pred :: real
  diff :: real
  agreement :: string

definition compare_models :: "predictions \<Rightarrow> py_error + comparison option" where
  "compare_models p =
     (if dict_get p ''modelo1'' \<noteq> DNone \<and> dict_get p ''modelo2'' \<noteq> DNone
      then (case (dict_get p ''modelo1'', dict_get p ''modelo2'') of
              (DNum a, DNum b) \<Rightarrow>
                (let d = \<bar>a - b\<bar>
                 in Inr (Some \<lparr> avg_pred = (a + b) / 2, diff = d,
                       agreement = (if d < 10 then ''Alta'' else (if d < 20 then ''Media'' else ''Baja'')) \<rparr>))
            | _ \<Rightarrow> Inl TypeError)
      else Inr None)"

text \<open>The prediction screen: when neither model is loaded it shows the error and stops
  (\<^verbatim>\<open>st.stop()\<close>) before the form is built; otherwise pressing the button calls
  \<^verbatim>\<open>predict_aqi\<close> with the chosen values (no \<^verbatim>\<open>fecha\<close>; the category only when the
  second model is loaded).\<close>

datatype screen = Unavailable | Form | Results predictions "py_error + comparison option"

definition prediction_screen ::
  "models \<Rightarrow> bool \<Rightarrow> string \<Rightarrow> string \<Rightarrow> string \<Rightarrow> real \<Rightarrow> real \<Rightarrow> string option \<Rightarrow> int
     \<Rightarrow> screen \<times> string list" where
  "prediction_screen ms button pred_ciudad pred_estado pred_contaminante pred_latitud pred_longitud
       selected_categoria now =
     (if modelo1 ms = None \<and> modelo2 ms = None then (Unavailable, [])
      else if button then
        (let pred_categoria = (if modelo2 ms \<noteq> None then selected_categoria else None);
             (p, calls) = predict_aqi ms pred_ciudad pred_estado pred_contaminante pred_latitud
                            pred_longitud None pred_categoria now
         in (Results p (compare_models p), calls))
      else (Form, []))"

section \<open>Example data\<close>

text \<open>The two Austin readings of the specification's first scenario, a later Austin
  reading whose AQI and category label are null, and a reading from another state.\<close>

definition austin_45 :: reading where
  "austin_45 = \<lparr> id_col = 1, fecha = 100, ciudad = Some ''Austin'', estado = Some ''TX'',
       latitud = Some 30.27, longitud = Some (- 97.74), contaminante = Some ''O3'',
       aqi = Some 45, categoria = Some ''Good'' \<rparr>"

definition austin_55 :: reading where
  "austin_55 = \<lparr> id_col = 2, fecha = 200, ciudad = Some ''Austin'', estado = Some ''TX'',
       latitud = Some 30.27, longitud = Some (- 97.74), contaminante = Some ''O3'',
       aqi = Some 55, categoria = Some ''Moderate'' \<rparr>"

definition austin_null :: reading where
  "austin_null = \<lparr> id_col = 3, fecha = 300, ciudad = Some ''Austin'', estado = Some ''TX'',
       latitud = Some 30.27, longitud = Some (- 97.74), contaminante = Some ''O3'',
       aqi = None, categoria = None \<rparr>"

definition denver_120 :: reading where
  "denver_120 = \<lparr> id_col = 4, fecha = 150, ciudad = Some ''Denver'', estado = Some ''CO'',
       latitud = Some 39.74, longitud = Some (- 104.99), contaminante = Some ''PM2.5'',
       aqi = Some 120, categoria = Some ''Unhealthy for Sensitive Groups'' \<rparr>"

definition cfg_tx :: config where
  "cfg_tx = \<lparr> auto_refresh = True, refresh_interval = 15, estado_seleccionado = ''TX'',
       contaminante_seleccionado = ''Todos'' \<rparr>"

definition cfg_once :: config where
  "cfg_once = \<lparr> auto_refresh = False, refresh_interval = 15, estado_seleccionado = ''Todos'',
       contaminante_seleccionado = ''Todos'' \<rparr>"


definition models_fail_58 :: models where
  "models_fail_58 = \<lparr> modelo1 = Some (\<lambda>d. Raises ''unknown category''),
       modelo2 = Some (\<lambda>d. Returns 58) \<rparr>"

definition models_none :: models where
  "models_none = \<lparr> modelo1 = None, modelo2 = None \<rparr>"

section \<open>Properties of the category classifier\<close>

lemma rank_of_Num:
  "rank_of (Num x) = Some (if x \<le> 50 then 0 else if x \<le> 100 then 1 else if x \<le> 150 then 2
     else if x \<le> 200 then 3 else if x \<le> 300 then 4 else 5)"
  by (simp add: rank_of_def get_aqi_category_info_def py_if_def severity_rank_def)

lemma rank_of_NegInf: "rank_of NegInf = Some 0"
  by (simp add: rank_of_def get_aqi_category_info_def py_if_def severity_rank_def)

lemma rank_of_PosInf: "rank_of PosInf = Some 5"
  by (simp add: rank_of_def get_aqi_category_info_def py_if_def severity_rank_def)

text \<open>
  Claim C1. \<^verbatim>\<open>get_aqi_category_info\<close> answers with the band of the table, upper bounds
  inclusive: \<^verbatim>\<open>None\<close> and NaN give Unknown (#808080, white circle); a number at most 50
  gives Good; above 50 and at most 100 Moderate; above 100 and at most 150 Unhealthy for
  Sensitive Groups; above 150 and at most 200 Unhealthy; above 200 and at most 300 Very
  Unhealthy; above 300 Hazardous; each with the colour and symbol of the table. The
  infinities fall into the first and the last band.
\<close>

theorem classifier_bands:
  "get_aqi_category_info PyNone = Inr (''Unknown'', ''#808080'', sym_white)
   \<and> get_aqi_category_info NaN = Inr (''Unknown'', ''#808080'', sym_white)
   \<and> get_aqi_category_info NegInf = Inr (''Good'', ''#00E400'', sym_green)
   \<and> get_aqi_category_info PosInf = Inr (''Hazardous'', ''#7E0023'', sym_brown)
   \<and> (\<forall>x. x \<le> 50 \<longrightarrow> get_aqi_category_info (Num x) = Inr (''Good'', ''#00E400'', sym_green))
   \<and> (\<forall>x. 50 < x \<and> x \<le> 100 \<longrightarrow>
         get_aqi_category_info (Num x) = Inr (''Moderate'', ''#FFFF00'', sym_yellow))
   \<and> (\<forall>x. 100 < x \<and> x \<le> 150 \<longrightarrow>
         get_aqi_category_info (Num x) = Inr (''Unhealthy for Sensitive Groups'', ''#FF7E00'', sym_orange))
   \<and> (\<forall>x. 150 < x \<and> x \<le> 200 \<longrightarrow>
         get_aqi_category_info (Num x) = Inr (''Unhealthy'', ''#FF0000'', sym_red))
   \<and> (\<forall>x. 200 < x \<and> x \<le> 300 \<longrightarrow>
         get_aqi_category_info (Num x) = Inr (''Very Unhealthy'', ''#8F3F97'', sym_purple))
   \<and> (\<forall>x. 300 < x \<longrightarrow> get_aqi_category_info (Num x) = Inr (''Hazardous'', ''#7E0023'', sym_brown))"
  by (simp add: get_aqi_category_info_def py_if_def)

text \<open>The boundary values named by the specification, obtained from the band theorem:
  50 is Good, 50.01 Moderate, 300 Very Unhealthy, 300.01 Hazardous, \<^verbatim>\<open>None\<close> Unknown.\<close>

theorem classifier_bands_witness:
  "get_aqi_category_info (Num 50) = Inr (''Good'', ''#00E400'', sym_green)
   \<and> get_aqi_category_info (Num 50.01) = Inr (''Moderate'', ''#FFFF00'', sym_yellow)
   \<and> get_aqi_category_info (Num 125) = Inr (''Unhealthy for Sensitive Groups'', ''#FF7E00'', sym_orange)
   \<and> get_aqi_category_info (Num 175) = Inr (''Unhealthy'', ''#FF0000'', sym_red)
   \<and> get_aqi_category_info (Num 300) = Inr (''Very Unhealthy'', ''#8F3F97'', sym_purple)
   \<and> get_aqi_category_info (Num 300.01) = Inr (''Hazardous'', ''#7E0023'', sym_brown)
   \<and> get_aqi_category_info PyNone = Inr (''Unknown'', ''#808080'', sym_white)"
proof -
  note b = classifier_bands
  have good: "get_aqi_category_info (Num 50) = Inr (''Good'', ''#00E400'', sym_green)"
    using b by (elim conjE allE [of _ "50::real"]) simp
  have moderate: "get_aqi_category_info (Num 50.01) = Inr (''Moderate'', ''#FFFF00'', sym_yellow)"
    using b by (elim conjE allE [of _ "50.01::real"]) simp
  have usg: "get_aqi_category_info (Num 125) = Inr (''Unhealthy for Sensitive Groups'', ''#FF7E00'', sym_orange)"
    using b by (elim conjE allE [of _ "125::real"]) simp
  have unhealthy: "get_aqi_category_info (Num 175) = Inr (''Unhealthy'', ''#FF0000'', sym_red)"
    using b by (elim conjE allE [of _ "175::real"]) simp
  have very: "get_aqi_category_info (Num 300) = Inr (''Very Unhealthy'', ''#8F3F97'', sym_purple)"
    using b by (elim conjE allE [of _ "300::real"]) simp
  have hazardous: "get_aqi_category_info (Num 300.01) = Inr (''Hazardous'', ''#7E0023'', sym_brown)"
    using b by (elim conjE allE [of _ "300.01::real"]) simp
  have unknown: "get_aqi_category_info PyNone = Inr (''Unknown'', ''#808080'', sym_white)"
    using b by (elim conjE)
  from good moderate usg unhealthy very hazardous unknown show ?thesis by simp
qed

text \<open>
  Claim C9. The classifier is total: for every value (\<^verbatim>\<open>None\<close>, NaN, the infinities and
  every finite number, negative ones included) it returns a triple and never raises;
  and on numeric values the severity rank of the answer does not decrease when the
  value increases.
\<close>

theorem classifier_total_monotone:
  "(\<forall>v. \<exists>info. get_aqi_category_info v = Inr info)
   \<and> (\<forall>v1 v2. is_numeric v1 \<and> is_numeric v2 \<and> num_le v1 v2 \<longrightarrow>
        (\<exists>r1 r2. rank_of v1 = Some r1 \<and> rank_of v2 = Some r2 \<and> r1 \<le> r2))"
proof (intro conjI allI impI)
  fix v
  show "\<exists>info. get_aqi_category_info v = Inr info"
    by (cases v) (simp_all add: get_aqi_category_info_def py_if_def)
next
  fix v1 v2
  assume h: "is_numeric v1 \<and> is_numeric v2 \<and> num_le v1 v2"
  show "\<exists>r1 r2. rank_of v1 = Some r1 \<and> rank_of v2 = Some r2 \<and> r1 \<le> r2"
  proof (cases v1)
    case PyNone
    with h show ?thesis by simp
  next
    case NaN
    with h show ?thesis by simp
  next
    case NegInf
    with h show ?thesis
      by (cases v2) (simp_all add: rank_of_NegInf rank_of_PosInf rank_of_Num)
  next
    case (Num x)
    with h show ?thesis
      by (cases v2) (simp_all add: rank_of_PosInf rank_of_Num)
  next
    case PosInf
    with h show ?thesis
      by (cases v2) (simp_all add: rank_of_PosInf)
  qed
qed

theorem classifier_total_monotone_witness:
  "(\<exists>info. get_aqi_category_info (Num (- 7)) = Inr info)
   \<and> (\<exists>r1 r2. rank_of (Num 50) = Some r1 \<and> rank_of (Num 50.01) = Some r2 \<and> r1 \<le> r2)
   \<and> rank_of (Num 50) = Some 0 \<and> rank_of (Num 50.01) = Some 1"
proof -
  note t = classifier_total_monotone
  have a: "\<exists>info. get_aqi_category_info (Num (- 7)) = Inr info"
    using t by blast
  have n: "is_numeric (Num 50) \<and> is_numeric (Num 50.01) \<and> num_le (Num 50) (Num 50.01)"
    by simp
  have b: "\<exists>r1 r2. rank_of (Num 50) = Some r1 \<and> rank_of (Num 50.01) = Some r2 \<and> r1 \<le> r2"
    using t n by blast
  have c: "rank_of (Num 50) = Some 0 \<and> rank_of (Num 50.01) = Some 1"
    by (simp add: rank_of_Num)
  from a b c show ?thesis by simp
qed

section \<open>Properties of the filter block\<close>

text \<open>
  Claim C2. With both selectors at the sentinel \<^verbatim>\<open>"Todos"\<close> the filter block returns its
  input unchanged. Filtering by state and then by pollutant, filtering by pollutant and
  then by state, and filtering by both at once give the same rows, which are the rows of
  the input that are in both single-filter results. The output is a subsequence of the
  input, so the relative order of the rows is kept. A selection that matches no row gives
  the empty list, an ordinary result.
\<close>

theorem filters_compose:
  "apply_filters ''Todos'' ''Todos'' R = R
   \<and> apply_filters ''Todos'' p (apply_filters e ''Todos'' R) = apply_filters e p R
   \<and> apply_filters e ''Todos'' (apply_filters ''Todos'' p R) = apply_filters e p R
   \<and> apply_filters e p R =
       filter (\<lambda>r. r \<in> set (apply_filters e ''Todos'' R) \<and> r \<in> set (apply_filters ''Todos'' p R)) R
   \<and> set (apply_filters e p R) = set (apply_filters e ''Todos'' R) \<inter> set (apply_filters ''Todos'' p R)
   \<and> subseq (apply_filters e p R) R
   \<and> (e \<noteq> ''Todos'' \<and> (\<forall>r\<in>set R. estado r \<noteq> Some e) \<longrightarrow> apply_filters e p R = [])"
proof (intro conjI)
  show "apply_filters ''Todos'' ''Todos'' R = R"
    by (simp add: apply_filters_def)
  show "apply_filters ''Todos'' p (apply_filters e ''Todos'' R) = apply_filters e p R"
    by (simp add: apply_filters_def)
  show "apply_filters e ''Todos'' (apply_filters ''Todos'' p R) = apply_filters e p R"
    by (auto simp: apply_filters_def intro: filter_cong)
  show "apply_filters e p R =
       filter (\<lambda>r. r \<in> set (apply_filters e ''Todos'' R) \<and> r \<in> set (apply_filters ''Todos'' p R)) R"
    by (auto simp: apply_filters_def intro: filter_cong)
  show "set (apply_filters e p R) = set (apply_filters e ''Todos'' R) \<inter> set (apply_filters ''Todos'' p R)"
    by (auto simp: apply_filters_def)
  show "subseq (apply_filters e p R) R"
    by (auto simp: apply_filters_def intro: subseq_order.order_trans [OF subseq_filter_left subseq_filter_left])
  show "e \<noteq> ''Todos'' \<and> (\<forall>r\<in>set R. estado r \<noteq> Some e) \<longrightarrow> apply_filters e p R = []"
    by (simp add: apply_filters_def filter_empty_conv)
qed

text \<open>On the two Austin readings and the Denver reading: state TX with pollutant O3
  keeps the two Austin rows in their order, in either order of filtering; state NY
  matches nothing.\<close>

theorem filters_compose_witness:
  "apply_filters ''Todos'' ''Todos'' [austin_45, denver_120, austin_55] = [austin_45, denver_120, austin_55]
   \<and> apply_filters ''Todos'' ''O3'' (apply_filters ''TX'' ''Todos'' [austin_45, denver_120, austin_55])
       = [austin_45, austin_55]
   \<and> apply_filters ''TX'' ''Todos'' (apply_filters ''Todos'' ''O3'' [austin_45, denver_120, austin_55])
       = [austin_45, austin_55]
   \<and> apply_filters ''TX'' ''O3'' [austin_45, denver_120, austin_55] = [austin_45, austin_55]
   \<and> subseq [austin_45, austin_55] [austin_45, denver_120, austin_55]
   \<and> apply_filters ''NY'' ''O3'' [austin_45, denver_120, austin_55] = []"
proof -
  let ?R = "[austin_45, denver_120, austin_55]"
  note t = filters_compose [of ?R "''O3''" "''TX''"]
  note t1 = t [THEN conjunct1]
  note t2 = t [THEN conjunct2, THEN conjunct1]
  note t3 = t [THEN conjunct2, THEN conjunct2, THEN conjunct1]
  note t6 = t [THEN conjunct2, THEN conjunct2, THEN conjunct2, THEN conjunct2, THEN conjunct2,
    THEN conjunct1]
  have both: "apply_filters ''TX'' ''O3'' ?R = [austin_45, austin_55]"
    by (simp add: apply_filters_def austin_45_def austin_55_def denver_120_def)
  have ny: "''NY'' \<noteq> ''Todos'' \<and> (\<forall>r\<in>set ?R. estado r \<noteq> Some ''NY'')"
    by (simp add: austin_45_def austin_55_def denver_120_def)
  have empty: "apply_filters ''NY'' ''O3'' ?R = []"
    by (rule filters_compose [of ?R "''O3''" "''NY''", THEN conjunct2, THEN conjunct2, THEN conjunct2,
          THEN conjunct2, THEN conjunct2, THEN conjunct2, THEN mp, OF ny])
  have first: "apply_filters ''Todos'' ''O3'' (apply_filters ''TX'' ''Todos'' ?R) = [austin_45, austin_55]"
    by (simp only: t2 both)
  have second: "apply_filters ''TX'' ''Todos'' (apply_filters ''Todos'' ''O3'' ?R) = [austin_45, austin_55]"
    by (simp only: t3 both)
  have order: "subseq [austin_45, austin_55] ?R"
    using t6 by (simp only: both)
  from t1 first second both order empty show ?thesis
    by (intro conjI)
qed

section \<open>Properties of the overall metrics\<close>

lemma set_dropna: "set (dropna col) = {v. Some v \<in> set col}"
  by (induction col rule: dropna.induct) auto

lemma set_dropna_map: "set (dropna (map f df)) = {v. \<exists>r\<in>set df. f r = Some v}"
  by (auto simp: set_dropna image_iff) metis+

lemma sum_list_dropna_map:
  "sum_list (dropna (map f df)) = (\<Sum>r\<leftarrow>df. case f r of None \<Rightarrow> 0 | Some x \<Rightarrow> (x::real))"
proof (induction df)
  case Nil
  show ?case by simp
next
  case (Cons r df)
  then show ?case by (cases "f r") simp_all
qed

lemma length_dropna_map:
  "length (dropna (map f df)) = length (filter (\<lambda>r. f r \<noteq> None) df)"
proof (induction df)
  case Nil
  show ?case by simp
next
  case (Cons r df)
  then show ?case by (cases "f r") simp_all
qed

lemma dropna_empty_iff: "dropna (map f df) = [] \<longleftrightarrow> (\<forall>r\<in>set df. f r = None)"
proof (induction df)
  case Nil
  show ?case by simp
next
  case (Cons r df)
  then show ?case by (cases "f r") simp_all
qed

lemma nunique_card: "nunique (map f df) = card {v. \<exists>r\<in>set df. f r = Some v}"
  by (simp add: nunique_def length_remdups_card_conv set_dropna_map)

lemma series_max_Max:
  assumes "\<exists>r\<in>set df. f r \<noteq> None"
  shows "series_max (map f df) = Num (Max {x. \<exists>r\<in>set df. f r = Some x})"
proof -
  from assms have ne: "dropna (map f df) \<noteq> []"
    by (simp add: dropna_empty_iff)
  then obtain v vals where vv: "dropna (map f df) = v # vals"
    by (cases "dropna (map f df)") auto
  have "fold max vals v = Max (set (v # vals))"
    by (rule Max.set_eq_fold [symmetric])
  also have "set (v # vals) = {x. \<exists>r\<in>set df. f r = Some x}"
    using set_dropna_map [of f df] vv by simp
  finally show ?thesis
    by (simp add: series_max_def vv)
qed

lemma series_mean_mean:
  assumes "\<exists>r\<in>set df. f r \<noteq> None"
  shows "series_mean (map f df) =
     Num ((\<Sum>r\<leftarrow>df. case f r of None \<Rightarrow> 0 | Some x \<Rightarrow> x) / real (length (filter (\<lambda>r. f r \<noteq> None) df)))"
  using assms by (simp add: series_mean_def Let_def dropna_empty_iff sum_list_dropna_map length_dropna_map)

lemma series_all_null:
  assumes "\<forall>r\<in>set df. f r = None"
  shows "series_mean (map f df) = NaN" and "series_max (map f df) = NaN"
  using assms dropna_empty_iff [of f df] by (simp_all add: series_mean_def series_max_def)

text \<open>
  Claim C3. For a non-empty filtered set, the number of readings is the number of rows,
  whether their AQI is null or not; the city and state counts are the numbers of distinct
  (non-null) cities and states; when some AQI is present, the mean AQI is the sum of the
  AQI values that are present divided by their number, and the maximum AQI is the
  greatest of them. When every AQI is null both are NaN. Sums and quotients are the
  exact real ones, which the floating-point results of pandas approximate.
\<close>

theorem overall_metrics_correct:
  "df \<noteq> [] \<Longrightarrow>
     total_lecturas (metrics df) = length df
   \<and> ciudades (metrics df) = card {c. \<exists>r\<in>set df. ciudad r = Some c}
   \<and> estados (metrics df) = card {s. \<exists>r\<in>set df. estado r = Some s}
   \<and> ((\<exists>r\<in>set df. aqi r \<noteq> None) \<longrightarrow>
        avg_aqi (metrics df) =
          Num ((\<Sum>r\<leftarrow>df. case aqi r of None \<Rightarrow> 0 | Some x \<Rightarrow> x)
               / real (length (filter (\<lambda>r. aqi r \<noteq> None) df)))
        \<and> max_aqi (metrics df) = Num (Max {x. \<exists>r\<in>set df. aqi r = Some x}))
   \<and> ((\<forall>r\<in>set df. aqi r = None) \<longrightarrow> avg_aqi (metrics df) = NaN \<and> max_aqi (metrics df) = NaN)"
  by (simp add: metrics_def nunique_card series_mean_mean series_max_Max series_all_null)


text \<open>The two Austin readings of the first scenario together with the reading without
  AQI: three readings, one city, one state, mean 50, maximum 55.\<close>

theorem overall_metrics_correct_witness:
  "[austin_45, austin_55, austin_null] \<noteq> []
   \<and> total_lecturas (metrics [austin_45, austin_55, austin_null]) = 3
   \<and> ciudades (metrics [austin_45, austin_55, austin_null]) = 1
   \<and> estados (metrics [austin_45, austin_55, austin_null]) = 1
   \<and> avg_aqi (metrics [austin_45, austin_55, austin_null]) = Num 50
   \<and> max_aqi (metrics [austin_45, austin_55, austin_null]) = Num 55"
proof -
  let ?df = "[austin_45, austin_55, austin_null]"
  have ne: "?df \<noteq> []"
    by simp
  note t = overall_metrics_correct [OF ne]
  have some: "\<exists>r\<in>set ?df. aqi r \<noteq> None"
    by (simp add: austin_45_def)
  have c: "{c. \<exists>r\<in>set ?df. ciudad r = Some c} = {''Austin''}"
    by (auto simp: austin_45_def austin_55_def austin_null_def)
  have s: "{s. \<exists>r\<in>set ?df. estado r = Some s} = {''TX''}"
    by (auto simp: austin_45_def austin_55_def austin_null_def)
  have m: "{x. \<exists>r\<in>set ?df. aqi r = Some x} = {45, 55}"
    by (auto simp: austin_45_def austin_55_def austin_null_def)
  have sum: "(\<Sum>r\<leftarrow>?df. case aqi r of None \<Rightarrow> 0 | Some x \<Rightarrow> x) = 100"
    by (simp add: austin_45_def austin_55_def austin_null_def)
  have len: "length (filter (\<lambda>r. aqi r \<noteq> None) ?df) = 2"
    by (simp add: austin_45_def austin_55_def austin_null_def)
  have tl: "total_lecturas (metrics ?df) = length ?df"
    using t by blast
  have ci: "ciudades (metrics ?df) = card {c. \<exists>r\<in>set ?df. ciudad r = Some c}"
    using t by blast
  have es: "estados (metrics ?df) = card {s. \<exists>r\<in>set ?df. estado r = Some s}"
    using t by blast
  have av: "avg_aqi (metrics ?df) =
      Num ((\<Sum>r\<leftarrow>?df. case aqi r of None \<Rightarrow> 0 | Some x \<Rightarrow> x)
           / real (length (filter (\<lambda>r. aqi r \<noteq> None) ?df)))"
    using t some by blast
  have mx: "max_aqi (metrics ?df) = Num (Max {x. \<exists>r\<in>set ?df. aqi r = Some x})"
    using t some by blast
  have "total_lecturas (metrics ?df) = 3"
    unfolding tl by simp
  moreover have "ciudades (metrics ?df) = 1"
    unfolding ci c by simp
  moreover have "estados (metrics ?df) = 1"
    unfolding es s by simp
  moreover have "avg_aqi (metrics ?df) = Num 50"
    unfolding av sum len by simp
  moreover have "max_aqi (metrics ?df) = Num 55"
    unfolding mx m by simp
  ultimately show ?thesis
    using ne by simp
qed

section \<open>Properties of the category distribution\<close>

lemma count_list_dropna_map:
  "count_list (dropna (map f df)) v = length (filter (\<lambda>r. f r = Some v) df)"
proof (induction df)
  case Nil
  show ?case by simp
next
  case (Cons r df)
  then show ?case by (cases "f r") simp_all
qed

lemma sum_list_insort_key:
  "sum_list (map h (insort_key k x xs)) = (h x :: real) + sum_list (map h xs)"
  by (induction xs) simp_all

lemma sum_list_sort_key: "sum_list (map h (sort_key k xs)) = (sum_list (map h xs) :: real)"
  by (induction xs) (simp_all add: sum_list_insort_key)

lemma value_counts_set:
  "set (value_counts col) = (\<lambda>v. (v, count_list (dropna col) v)) ` set (dropna col)"
  by (simp add: value_counts_def Let_def)

lemma value_counts_distinct: "distinct (map fst (value_counts col))"
proof -
  let ?E = "map (\<lambda>v. (v, count_list (dropna col) v)) (rev (remdups (rev (dropna col))))"
  have e: "distinct (map fst ?E)"
    by (simp add: comp_def)
  then have "distinct ?E" and inj: "inj_on fst (set ?E)"
    by (simp_all only: distinct_map)
  then have "distinct (sort_key (\<lambda>(v, n). - int n) ?E)"
    by (simp only: distinct_sort)
  with inj have "distinct (map fst (sort_key (\<lambda>(v, n). - int n) ?E))"
    by (simp only: distinct_map set_sort)
  then show ?thesis
    by (simp add: value_counts_def Let_def)
qed

lemma value_counts_total:
  "(\<Sum>(v, n)\<leftarrow>value_counts col. real n * c) = real (length (dropna col)) * c"
proof -
  let ?vals = "dropna col"
  let ?U = "rev (remdups (rev ?vals))"
  have "(\<Sum>(v, n)\<leftarrow>value_counts col. real n * c)
      = (\<Sum>(v, n)\<leftarrow>map (\<lambda>v. (v, count_list ?vals v)) ?U. real n * c)"
    by (simp add: value_counts_def Let_def sum_list_sort_key)
  also have "\<dots> = (\<Sum>v\<leftarrow>?U. real (count_list ?vals v) * c)"
    by (simp add: comp_def)
  also have "\<dots> = (\<Sum>v\<in>set ?U. real (count_list ?vals v) * c)"
    by (rule sum_list_distinct_conv_sum_set) simp
  also have "\<dots> = real (\<Sum>v\<in>set ?vals. count_list ?vals v) * c"
    by (simp add: sum_distrib_right)
  also have "(\<Sum>v\<in>set ?vals. count_list ?vals v) = length ?vals"
    by (rule sum_count_set) simp_all
  finally show ?thesis .
qed

lemma pct_total_eq:
  "pct_total (categoria_counts df) =
     real (length (filter (\<lambda>r. categoria r \<noteq> None) df)) / real (length df) * 100"
proof -
  have "pct_total (categoria_counts df)
      = (\<Sum>(v, n)\<leftarrow>value_counts (map categoria df). real n * (100 / real (length df)))"
    by (simp add: pct_total_def categoria_counts_def comp_def case_prod_unfold)
  also have "\<dots> = real (length (dropna (map categoria df))) * (100 / real (length df))"
    by (rule value_counts_total)
  finally show ?thesis
    by (simp add: length_dropna_map)
qed

lemma categoria_counts_keys:
  "map fst (categoria_counts df) = map fst (value_counts (map categoria df))"
  by (simp add: categoria_counts_def comp_def case_prod_unfold)

lemma categoria_counts_entry:
  assumes "(cat, count, pct) \<in> set (categoria_counts df)"
  shows "count = length (filter (\<lambda>r. categoria r = Some cat) df)
       \<and> pct = real count / real (length df) * 100"
proof -
  from assms obtain v n where vn: "(v, n) \<in> set (value_counts (map categoria df))"
    and eq: "(cat, count, pct) = (v, n, real n / real (length df) * 100)"
    by (auto simp: categoria_counts_def)
  from vn have "n = count_list (dropna (map categoria df)) v"
    by (auto simp: value_counts_set)
  with eq show ?thesis
    by (simp add: count_list_dropna_map)
qed

text \<open>
  Claim C4, as stated (the percentages add up to 100, also when some rows carry no
  category label), fails: \<^verbatim>\<open>value_counts\<close> leaves the rows without a label out, while
  every count is still divided by the number of all filtered rows. For the Austin reading
  labelled Good and the Austin reading without a label the only entry is Good, 1, 50 per
  cent.
\<close>

theorem categoria_pct_counterexample:
  "[austin_45, austin_null] \<noteq> []
   \<and> categoria_counts [austin_45, austin_null] = [(''Good'', 1, 50)]
   \<and> pct_total (categoria_counts [austin_45, austin_null]) = 50
   \<and> \<not> \<bar>pct_total (categoria_counts [austin_45, austin_null]) - 100\<bar> \<le> 1"
  by (simp add: pct_total_def categoria_counts_def value_counts_def austin_45_def austin_null_def)

text \<open>
  Claim C4, amended. For a non-empty filtered set the distribution has one entry for
  each category label that occurs, with the number of rows carrying that label and that
  number divided by the number of filtered rows, times 100. The percentages add up to the
  share of the rows that carry a label, times 100; they add up to 100 exactly when no row
  has a null label.
\<close>

theorem categoria_percentages:
  "df \<noteq> [] \<Longrightarrow>
     distinct (map fst (categoria_counts df))
   \<and> set (map fst (categoria_counts df)) = {c. \<exists>r\<in>set df. categoria r = Some c}
   \<and> (\<forall>(cat, count, pct)\<in>set (categoria_counts df).
        count = length (filter (\<lambda>r. categoria r = Some cat) df)
        \<and> pct = real count / real (length df) * 100)
   \<and> pct_total (categoria_counts df) =
        real (length (filter (\<lambda>r. categoria r \<noteq> None) df)) / real (length df) * 100
   \<and> ((\<forall>r\<in>set df. categoria r \<noteq> None) \<longrightarrow> pct_total (categoria_counts df) = 100)"
proof (intro conjI)
  assume ne: "df \<noteq> []"
  show "distinct (map fst (categoria_counts df))"
    by (simp only: categoria_counts_keys value_counts_distinct)
  show "set (map fst (categoria_counts df)) = {c. \<exists>r\<in>set df. categoria r = Some c}"
    by (simp only: categoria_counts_keys set_map value_counts_set image_image fst_conv image_ident
          set_dropna_map)
  show "\<forall>(cat, count, pct)\<in>set (categoria_counts df).
        count = length (filter (\<lambda>r. categoria r = Some cat) df)
        \<and> pct = real count / real (length df) * 100"
    using categoria_counts_entry by blast
  show tot: "pct_total (categoria_counts df) =
        real (length (filter (\<lambda>r. categoria r \<noteq> None) df)) / real (length df) * 100"
    by (rule pct_total_eq)
  show "(\<forall>r\<in>set df. categoria r \<noteq> None) \<longrightarrow> pct_total (categoria_counts df) = 100"
  proof
    assume "\<forall>r\<in>set df. categoria r \<noteq> None"
    then have "filter (\<lambda>r. categoria r \<noteq> None) df = df"
      by (simp add: filter_id_conv)
    with tot ne show "pct_total (categoria_counts df) = 100"
      by simp
  qed
qed


text \<open>The first scenario: Good and Moderate with one reading and 50 per cent each, 100 in
  total. With the unlabelled reading and the Denver reading added, three of four rows
  carry a label and the total is 75.\<close>

theorem categoria_percentages_witness:
  "[austin_45, austin_55] \<noteq> []
   \<and> categoria_counts [austin_45, austin_55] = [(''Good'', 1, 50), (''Moderate'', 1, 50)]
   \<and> pct_total (categoria_counts [austin_45, austin_55]) = 100
   \<and> pct_total (categoria_counts [austin_45, austin_55, austin_null, denver_120]) = 75"
proof -
  let ?df = "[austin_45, austin_55]"
  let ?df4 = "[austin_45, austin_55, austin_null, denver_120]"
  have ne: "?df \<noteq> []" and ne4: "?df4 \<noteq> []"
    by simp_all
  have all: "\<forall>r\<in>set ?df. categoria r \<noteq> None"
    by (simp add: austin_45_def austin_55_def)
  have total: "pct_total (categoria_counts ?df) = 100"
    using categoria_percentages [OF ne] all by blast
  have l4: "length (filter (\<lambda>r. categoria r \<noteq> None) ?df4) = 3"
    by (simp add: austin_45_def austin_55_def austin_null_def denver_120_def)
  have "pct_total (categoria_counts ?df4) =
        real (length (filter (\<lambda>r. categoria r \<noteq> None) ?df4)) / real (length ?df4) * 100"
    using categoria_percentages [OF ne4] by blast
  then have total4: "pct_total (categoria_counts ?df4) = 75"
    unfolding l4 by simp
  have entries: "categoria_counts ?df = [(''Good'', 1, 50), (''Moderate'', 1, 50)]"
    by (simp add: categoria_counts_def value_counts_def austin_45_def austin_55_def)
  from ne total total4 entries show ?thesis
    by simp
qed

section \<open>Properties of the refresh loop\<close>

lemma selected_Nil: "selected cfg [] = []"
  by (simp add: selected_def apply_filters_def)

lemma cycle_shape:
  "dashboard_cycle cfg df =
     (if df = [] then ([Warning msg_no_data], Break)
      else if selected cfg df = [] then ([Warning msg_no_match], Break)
      else if auto_refresh cfg
        then ([Publish (render (selected cfg df)), Sleep (refresh_interval cfg)], Rerun)
        else ([Publish (render (selected cfg df))], Break))"
  by (simp add: dashboard_cycle_def Let_def)

lemma cycles_add_cycle: "cycles (add_cycle evs r) = evs # cycles r"
  by (cases r) simp_all

lemma loop_cycles_bound: "length (cycles (dashboard_loop cfg fetches)) \<le> length fetches"
proof (induction fetches)
  case Nil
  show ?case by simp
next
  case (Cons df later)
  then show ?case
    by (simp add: cycle_shape cycles_add_cycle)
qed

lemma loop_cycles_are_cycles:
  "cycles (dashboard_loop cfg fetches) =
     map (\<lambda>df. fst (dashboard_cycle cfg df)) (take (length (cycles (dashboard_loop cfg fetches))) fetches)"
proof (induction fetches)
  case Nil
  show ?case by simp
next
  case (Cons df later)
  then show ?case
    by (simp add: cycle_shape cycles_add_cycle)
qed

lemma cycle_publish_once: "length (filter is_publish (fst (dashboard_cycle cfg df))) \<le> 1"
  by (simp add: cycle_shape)

lemma loop_cycle_at:
  "i < length (cycles (dashboard_loop cfg fetches)) \<Longrightarrow>
     cycles (dashboard_loop cfg fetches) ! i = fst (dashboard_cycle cfg (fetches ! i))"
proof (induction fetches arbitrary: i)
  case Nil
  then show ?case by simp
next
  case (Cons df later)
  show ?case
  proof (cases i)
    case 0
    then show ?thesis
      by (simp add: cycle_shape cycles_add_cycle)
  next
    case (Suc j)
    with Cons.prems have "j < length (cycles (dashboard_loop cfg later))"
      by (simp add: cycle_shape cycles_add_cycle split: if_splits)
    with Cons.IH [of j] Cons.prems Suc show ?thesis
      by (simp add: cycle_shape cycles_add_cycle split: if_splits)
  qed
qed

lemma add_cycle_Halted: "r = Halted (cycles r) \<Longrightarrow> add_cycle evs r = Halted (evs # cycles r)"
  by (cases r) simp_all

lemma loop_empty_is_last:
  "i < length (cycles (dashboard_loop cfg fetches)) \<Longrightarrow>
   fetches ! i = [] \<or> selected cfg (fetches ! i) = [] \<Longrightarrow>
     Suc i = length (cycles (dashboard_loop cfg fetches))
     \<and> dashboard_loop cfg fetches = Halted (cycles (dashboard_loop cfg fetches))"
proof (induction fetches arbitrary: i)
  case Nil
  then show ?case by simp
next
  case (Cons df later)
  show ?case
  proof (cases i)
    case 0
    with Cons.prems show ?thesis
      by (auto simp: cycle_shape)
  next
    case (Suc j)
    with Cons.prems have j: "j < length (cycles (dashboard_loop cfg later))"
      and run: "dashboard_loop cfg (df # later) =
          add_cycle (fst (dashboard_cycle cfg df)) (dashboard_loop cfg later)"
      by (simp_all add: cycle_shape cycles_add_cycle split: if_splits)
    from Cons.prems Suc have "later ! j = [] \<or> selected cfg (later ! j) = []"
      by simp
    with Cons.IH [OF j] have "Suc j = length (cycles (dashboard_loop cfg later))"
      and "dashboard_loop cfg later = Halted (cycles (dashboard_loop cfg later))"
      by simp_all
    with run Suc show ?thesis
      by (simp add: cycles_add_cycle add_cycle_Halted)
  qed
qed

text \<open>
  Claim C5. In a cycle whose fetch is empty, or whose rows all fail the filters, the loop
  shows a warning, publishes no view and stops: the run is halted after that cycle
  whatever the store would answer later. In a cycle with rows left after filtering
  exactly one view is published; with auto-refresh on it is followed by the sleep and
  the run goes on with the next fetch. With auto-refresh off the run consists of exactly
  one cycle, without sleep, and is halted. In every run over any sequence of fetches,
  each cycle is the cycle of its fetch, publishes at most once, and a cycle without data
  is the last one of a halted run.
\<close>

theorem refresh_controller:
  "(df = [] \<or> selected cfg df = [] \<longrightarrow>
      (\<exists>w. dashboard_cycle cfg df = ([Warning w], Break))
      \<and> filter is_publish (fst (dashboard_cycle cfg df)) = []
      \<and> dashboard_loop cfg (df # later) = Halted [fst (dashboard_cycle cfg df)])
   \<and> (selected cfg df \<noteq> [] \<longrightarrow>
      filter is_publish (fst (dashboard_cycle cfg df)) = [Publish (render (selected cfg df))]
      \<and> (auto_refresh cfg \<longrightarrow>
            dashboard_cycle cfg df =
              ([Publish (render (selected cfg df)), Sleep (refresh_interval cfg)], Rerun)
          \<and> dashboard_loop cfg (df # later) =
              add_cycle (fst (dashboard_cycle cfg df)) (dashboard_loop cfg later)))
   \<and> (\<not> auto_refresh cfg \<longrightarrow>
        dashboard_loop cfg (df # later) = Halted [fst (dashboard_cycle cfg df)]
      \<and> length (cycles (dashboard_loop cfg (df # later))) = 1
      \<and> filter is_sleep (fst (dashboard_cycle cfg df)) = [])
   \<and> (\<forall>fetches i. i < length (cycles (dashboard_loop cfg fetches)) \<longrightarrow>
        cycles (dashboard_loop cfg fetches) ! i = fst (dashboard_cycle cfg (fetches ! i))
      \<and> length (filter is_publish (cycles (dashboard_loop cfg fetches) ! i)) \<le> 1
      \<and> (fetches ! i = [] \<or> selected cfg (fetches ! i) = [] \<longrightarrow>
            Suc i = length (cycles (dashboard_loop cfg fetches))
          \<and> dashboard_loop cfg fetches = Halted (cycles (dashboard_loop cfg fetches))))"
proof (intro conjI impI allI)
  assume e: "df = [] \<or> selected cfg df = []"
  then show "\<exists>w. dashboard_cycle cfg df = ([Warning w], Break)"
    by (auto simp: cycle_shape)
  from e show "filter is_publish (fst (dashboard_cycle cfg df)) = []"
    by (auto simp: cycle_shape)
  from e show "dashboard_loop cfg (df # later) = Halted [fst (dashboard_cycle cfg df)]"
    by (auto simp: cycle_shape)
next
  assume n: "selected cfg df \<noteq> []"
  then have d: "df \<noteq> []"
    using selected_Nil by auto
  from n d show "filter is_publish (fst (dashboard_cycle cfg df)) = [Publish (render (selected cfg df))]"
    by (simp add: cycle_shape)
  assume a: "auto_refresh cfg"
  from n d a show "dashboard_cycle cfg df =
      ([Publish (render (selected cfg df)), Sleep (refresh_interval cfg)], Rerun)"
    by (simp add: cycle_shape)
  from n d a show "dashboard_loop cfg (df # later) =
      add_cycle (fst (dashboard_cycle cfg df)) (dashboard_loop cfg later)"
    by (simp add: cycle_shape)
next
  assume a: "\<not> auto_refresh cfg"
  then show h: "dashboard_loop cfg (df # later) = Halted [fst (dashboard_cycle cfg df)]"
    by (simp add: cycle_shape)
  then show "length (cycles (dashboard_loop cfg (df # later))) = 1"
    by simp
  from a show "filter is_sleep (fst (dashboard_cycle cfg df)) = []"
    by (simp add: cycle_shape)
next
  fix fetches i
  assume i: "i < length (cycles (dashboard_loop cfg fetches))"
  then show at: "cycles (dashboard_loop cfg fetches) ! i = fst (dashboard_cycle cfg (fetches ! i))"
    by (rule loop_cycle_at)
  show "length (filter is_publish (cycles (dashboard_loop cfg fetches) ! i)) \<le> 1"
    unfolding at by (rule cycle_publish_once)
  assume "fetches ! i = [] \<or> selected cfg (fetches ! i) = []"
  with i show "Suc i = length (cycles (dashboard_loop cfg fetches))"
    and "dashboard_loop cfg fetches = Halted (cycles (dashboard_loop cfg fetches))"
    using loop_empty_is_last by blast+
qed

text \<open>Runs with the state filter TX and auto-refresh on: an empty fetch; a fetch with
  only the Denver reading; a fetch with an Austin reading followed by one with only the
  Denver reading. And a run with auto-refresh off.\<close>

theorem refresh_controller_witness:
  "dashboard_loop cfg_tx [[], [austin_45]] = Halted [[Warning msg_no_data]]
   \<and> dashboard_loop cfg_tx [[denver_120], [austin_45]] = Halted [[Warning msg_no_match]]
   \<and> dashboard_loop cfg_tx [[austin_45, denver_120], [denver_120], [austin_45]]
       = Halted [[Publish (render [austin_45]), Sleep 15], [Warning msg_no_match]]
   \<and> dashboard_loop cfg_once [[austin_45], [austin_55]] = Halted [[Publish (render [austin_45])]]
   \<and> length (cycles (dashboard_loop cfg_once [[austin_45], [austin_55]])) = 1"
proof -
  have s1: "selected cfg_tx [denver_120] = []"
    by (simp add: selected_def apply_filters_def cfg_tx_def denver_120_def)
  have s2: "selected cfg_tx [austin_45, denver_120] = [austin_45]"
    by (simp add: selected_def apply_filters_def cfg_tx_def denver_120_def austin_45_def)
  have s3: "selected cfg_once [austin_45] = [austin_45]"
    by (simp add: selected_def apply_filters_def cfg_once_def)
  have a: "auto_refresh cfg_tx" and i: "refresh_interval cfg_tx = 15" and o: "\<not> auto_refresh cfg_once"
    by (simp_all add: cfg_tx_def cfg_once_def)
  have ne: "selected cfg_tx [austin_45, denver_120] \<noteq> []"
    by (simp add: s2)
  note e0 = refresh_controller [of "[]" cfg_tx "[[austin_45]]", THEN conjunct1, THEN mp,
      OF disjI1 [OF refl], THEN conjunct2, THEN conjunct2]
  note e1 = refresh_controller [of "[denver_120]" cfg_tx "[[austin_45]]", THEN conjunct1, THEN mp,
      OF disjI2 [OF s1], THEN conjunct2, THEN conjunct2]
  note p = refresh_controller [of "[austin_45, denver_120]" cfg_tx "[[denver_120], [austin_45]]",
      THEN conjunct2, THEN conjunct1, THEN mp, OF ne, THEN conjunct2, THEN mp, OF a]
  note q = refresh_controller [of "[austin_45]" cfg_once "[[austin_55]]",
      THEN conjunct2, THEN conjunct2, THEN conjunct1, THEN mp, OF o]
  have c0: "dashboard_cycle cfg_tx [] = ([Warning msg_no_data], Break)"
    by (simp add: cycle_shape)
  have c1: "dashboard_cycle cfg_tx [denver_120] = ([Warning msg_no_match], Break)"
    by (simp add: cycle_shape s1)
  have c3: "dashboard_cycle cfg_once [austin_45] = ([Publish (render [austin_45])], Break)"
    by (simp add: cycle_shape s3 o)
  have r0: "dashboard_loop cfg_tx [[], [austin_45]] = Halted [[Warning msg_no_data]]"
    using e0 by (simp only: c0 fst_conv)
  have r1: "dashboard_loop cfg_tx [[denver_120], [austin_45]] = Halted [[Warning msg_no_match]]"
    using e1 by (simp only: c1 fst_conv)
  have r2: "dashboard_loop cfg_tx [[austin_45, denver_120], [denver_120], [austin_45]]
       = Halted [[Publish (render [austin_45]), Sleep 15], [Warning msg_no_match]]"
    by (simp only: p [THEN conjunct2] p [THEN conjunct1] r1 fst_conv add_cycle.simps s2 i)
  have r3: "dashboard_loop cfg_once [[austin_45], [austin_55]] = Halted [[Publish (render [austin_45])]]"
    using q [THEN conjunct1] by (simp only: c3 fst_conv)
  have r4: "length (cycles (dashboard_loop cfg_once [[austin_45], [austin_55]])) = 1"
    by (rule q [THEN conjunct2, THEN conjunct1])
  from r0 r1 r2 r3 r4 show ?thesis
    by (intro conjI)
qed

section \<open>Properties of the prediction screen\<close>

lemma predict_entries:
  "fst (predict_aqi ms c e p la lo f cat now) ''modelo1'' =
     (case modelo1 ms of None \<Rightarrow> None
      | Some m \<Rightarrow> (case m (mk_data_modelo1 c e p la lo) of Returns v \<Rightarrow> Some (DNum v) | Raises msg \<Rightarrow> Some DNone))"
  "fst (predict_aqi ms c e p la lo f cat now) ''modelo1_error'' =
     (case modelo1 ms of None \<Rightarrow> None
      | Some m \<Rightarrow> (case m (mk_data_modelo1 c e p la lo) of Returns v \<Rightarrow> None | Raises msg \<Rightarrow> Some (DStr msg)))"
  "fst (predict_aqi ms c e p la lo f cat now) ''modelo2'' =
     (case modelo2 ms of None \<Rightarrow> None
      | Some m \<Rightarrow> (case m (mk_data_modelo2 c e p la lo f cat now) of Returns v \<Rightarrow> Some (DNum v) | Raises msg \<Rightarrow> Some DNone))"
  "fst (predict_aqi ms c e p la lo f cat now) ''modelo2_error'' =
     (case modelo2 ms of None \<Rightarrow> None
      | Some m \<Rightarrow> (case m (mk_data_modelo2 c e p la lo f cat now) of Returns v \<Rightarrow> None | Raises msg \<Rightarrow> Some (DStr msg)))"
  by (simp_all add: predict_aqi_def Let_def split: option.splits outcome.splits)

lemma predict_calls:
  "snd (predict_aqi ms c e p la lo f cat now) =
     (if modelo1 ms = None then [] else [''modelo1'']) @ (if modelo2 ms = None then [] else [''modelo2''])"
  by (simp add: predict_aqi_def Let_def split: option.splits outcome.splits)

lemma predict_dom:
  "dom (fst (predict_aqi ms c e p la lo f cat now)) \<subseteq>
     (if modelo1 ms = None then {} else {''modelo1'', ''modelo1_error''})
     \<union> (if modelo2 ms = None then {} else {''modelo2'', ''modelo2_error''})"
  by (auto simp: predict_aqi_def Let_def split: option.splits outcome.splits if_splits)

lemma predict_none: "modelo1 ms = None \<Longrightarrow> modelo2 ms = None \<Longrightarrow>
    fst (predict_aqi ms c e p la lo f cat now) = Map.empty"
  by (simp add: predict_aqi_def)

text \<open>
  Claim C6. Each loaded model is invoked on its own: when the first model raises and the
  second returns a number, the dictionary holds \<^verbatim>\<open>None\<close> and the error text for the
  first and the number for the second, and both models were invoked; the same with the
  roles exchanged. When neither model is loaded, the prediction screen reports that
  predictions are unavailable and no model is invoked.
\<close>

theorem models_fail_independently:
  "(modelo1 ms = Some m1 \<and> modelo2 ms = Some m2
      \<and> m1 (mk_data_modelo1 c e p la lo) = Raises msg
      \<and> m2 (mk_data_modelo2 c e p la lo f cat now) = Returns v \<longrightarrow>
        fst (predict_aqi ms c e p la lo f cat now) ''modelo1'' = Some DNone
      \<and> fst (predict_aqi ms c e p la lo f cat now) ''modelo1_error'' = Some (DStr msg)
      \<and> fst (predict_aqi ms c e p la lo f cat now) ''modelo2'' = Some (DNum v)
      \<and> fst (predict_aqi ms c e p la lo f cat now) ''modelo2_error'' = None
      \<and> snd (predict_aqi ms c e p la lo f cat now) = [''modelo1'', ''modelo2''])
   \<and> (modelo1 ms = Some m1 \<and> modelo2 ms = Some m2
      \<and> m1 (mk_data_modelo1 c e p la lo) = Returns v
      \<and> m2 (mk_data_modelo2 c e p la lo f cat now) = Raises msg \<longrightarrow>
        fst (predict_aqi ms c e p la lo f cat now) ''modelo1'' = Some (DNum v)
      \<and> fst (predict_aqi ms c e p la lo f cat now) ''modelo1_error'' = None
      \<and> fst (predict_aqi ms c e p la lo f cat now) ''modelo2'' = Some DNone
      \<and> fst (predict_aqi ms c e p la lo f cat now) ''modelo2_error'' = Some (DStr msg)
      \<and> snd (predict_aqi ms c e p la lo f cat now) = [''modelo1'', ''modelo2''])
   \<and> (modelo1 ms = None \<and> modelo2 ms = None \<longrightarrow>
        prediction_screen ms button c e p la lo cat now = (Unavailable, []))"
  by (simp add: predict_entries predict_calls prediction_screen_def)


theorem models_fail_independently_witness:
  "fst (predict_aqi models_fail_58 ''Austin'' ''TX'' ''O3'' 30 (- 97) None None 0) ''modelo1'' = Some DNone
   \<and> fst (predict_aqi models_fail_58 ''Austin'' ''TX'' ''O3'' 30 (- 97) None None 0) ''modelo1_error''
       = Some (DStr ''unknown category'')
   \<and> fst (predict_aqi models_fail_58 ''Austin'' ''TX'' ''O3'' 30 (- 97) None None 0) ''modelo2''
       = Some (DNum 58)
   \<and> snd (predict_aqi models_fail_58 ''Austin'' ''TX'' ''O3'' 30 (- 97) None None 0)
       = [''modelo1'', ''modelo2'']
   \<and> prediction_screen models_none True ''Austin'' ''TX'' ''O3'' 30 (- 97) None 0 = (Unavailable, [])"
proof -
  have h: "modelo1 models_fail_58 = Some (\<lambda>d. Raises ''unknown category'')
      \<and> modelo2 models_fail_58 = Some (\<lambda>d. Returns 58)
      \<and> (\<lambda>d. Raises ''unknown category'') (mk_data_modelo1 ''Austin'' ''TX'' ''O3'' 30 (- 97))
          = Raises ''unknown category''
      \<and> (\<lambda>d. Returns 58) (mk_data_modelo2 ''Austin'' ''TX'' ''O3'' 30 (- 97) None None 0) = Returns 58"
    by (simp add: models_fail_58_def)
  have n: "modelo1 models_none = None \<and> modelo2 models_none = None"
    by (simp add: models_none_def)
  note t = models_fail_independently [of models_fail_58 "\<lambda>d. Raises ''unknown category''"
      "\<lambda>d. Returns 58" "''Austin''" "''TX''" "''O3''" 30 "- 97" "''unknown category''" None None 0 58,
      THEN conjunct1, THEN mp, OF h]
  note u = models_fail_independently [of models_none _ _ "''Austin''" "''TX''" "''O3''" 30 "- 97" _
      None None 0 _ True, THEN conjunct2, THEN conjunct2, THEN mp, OF n]
  from t u show ?thesis
    by simp
qed

text \<open>
  Claim C10. The dictionary returned by \<^verbatim>\<open>predict_aqi\<close> has keys only for loaded models:
  for an absent model neither the prediction key nor the error key; for a loaded model
  that raises, the prediction key with \<^verbatim>\<open>None\<close> and the error key with the message. With
  both models absent the dictionary is empty.
\<close>

theorem predictions_keys:
  "(modelo1 ms = None \<longrightarrow>
        ''modelo1'' \<notin> dom (fst (predict_aqi ms c e p la lo f cat now))
      \<and> ''modelo1_error'' \<notin> dom (fst (predict_aqi ms c e p la lo f cat now)))
   \<and> (modelo2 ms = None \<longrightarrow>
        ''modelo2'' \<notin> dom (fst (predict_aqi ms c e p la lo f cat now))
      \<and> ''modelo2_error'' \<notin> dom (fst (predict_aqi ms c e p la lo f cat now)))
   \<and> (modelo1 ms = Some m1 \<and> m1 (mk_data_modelo1 c e p la lo) = Raises msg \<longrightarrow>
        fst (predict_aqi ms c e p la lo f cat now) ''modelo1'' = Some DNone
      \<and> fst (predict_aqi ms c e p la lo f cat now) ''modelo1_error'' = Some (DStr msg))
   \<and> (modelo2 ms = Some m2 \<and> m2 (mk_data_modelo2 c e p la lo f cat now) = Raises msg \<longrightarrow>
        fst (predict_aqi ms c e p la lo f cat now) ''modelo2'' = Some DNone
      \<and> fst (predict_aqi ms c e p la lo f cat now) ''modelo2_error'' = Some (DStr msg))
   \<and> dom (fst (predict_aqi ms c e p la lo f cat now)) \<subseteq>
        (if modelo1 ms = None then {} else {''modelo1'', ''modelo1_error''})
        \<union> (if modelo2 ms = None then {} else {''modelo2'', ''modelo2_error''})
   \<and> (modelo1 ms = None \<and> modelo2 ms = None \<longrightarrow>
        fst (predict_aqi ms c e p la lo f cat now) = Map.empty)"
proof (intro conjI impI)
  show "dom (fst (predict_aqi ms c e p la lo f cat now)) \<subseteq>
        (if modelo1 ms = None then {} else {''modelo1'', ''modelo1_error''})
        \<union> (if modelo2 ms = None then {} else {''modelo2'', ''modelo2_error''})"
    by (rule predict_dom)
qed (simp_all add: predict_entries predict_none domIff)


theorem predictions_keys_witness:
  "fst (predict_aqi models_none ''Austin'' ''TX'' ''O3'' 30 (- 97) None None 0) = Map.empty
   \<and> ''modelo1'' \<notin> dom (fst (predict_aqi models_none ''Austin'' ''TX'' ''O3'' 30 (- 97) None None 0))
   \<and> fst (predict_aqi models_fail_58 ''Austin'' ''TX'' ''O3'' 30 (- 97) None None 0) ''modelo1'' = Some DNone
   \<and> fst (predict_aqi models_fail_58 ''Austin'' ''TX'' ''O3'' 30 (- 97) None None 0) ''modelo1_error''
       = Some (DStr ''unknown category'')"
proof -
  have n: "modelo1 models_none = None \<and> modelo2 models_none = None"
    by (simp add: models_none_def)
  have h: "modelo1 models_fail_58 = Some (\<lambda>d. Raises ''unknown category'')
      \<and> (\<lambda>d. Raises ''unknown category'') (mk_data_modelo1 ''Austin'' ''TX'' ''O3'' 30 (- 97))
          = Raises ''unknown category''"
    by (simp add: models_fail_58_def)
  note k = predictions_keys [of models_none "''Austin''" "''TX''" "''O3''" 30 "- 97" None None 0]
  note e = k [THEN conjunct2, THEN conjunct2, THEN conjunct2, THEN conjunct2, THEN conjunct2, THEN mp, OF n]
  note a = k [THEN conjunct1, THEN mp, OF n [THEN conjunct1], THEN conjunct1]
  note r = predictions_keys [of models_fail_58 "''Austin''" "''TX''" "''O3''" 30 "- 97" None None 0
      "\<lambda>d. Raises ''unknown category''" "''unknown category''",
      THEN conjunct2, THEN conjunct2, THEN conjunct1, THEN mp, OF h]
  from e a r show ?thesis
    by (intro conjI) simp_all
qed




section \<open>Properties of the latest reading per city\<close>

text \<open>
  What the snapshot does guarantee: it has exactly one row for each (non-null) city of
  the filtered set, in the order of the city names; the key and the timestamp of that row
  are those of one reading of the city, and the timestamp is the greatest among the
  city's readings. The other columns are filled column by column.
\<close>

lemma fold_combine_last_key:
  "ciudad (fold combine_last later r) = ciudad r"
  "id_col (fold combine_last later r) = id_col (last (r # later))"
  "fecha (fold combine_last later r) = fecha (last (r # later))"
  by (induction later arbitrary: r) (simp_all add: combine_last_def)

lemma group_last_row:
  assumes "rows \<noteq> []"
  shows "\<exists>row. group_last rows = [row] \<and> ciudad row = ciudad (hd rows)
           \<and> id_col row = id_col (last rows) \<and> fecha row = fecha (last rows)"
proof -
  from assms obtain r later where "rows = r # later"
    by (cases rows) auto
  then show ?thesis
    using fold_combine_last_key [of later r] by (simp add: group_last_def)
qed

lemma sorted_last_Max:
  fixes ys :: "int list"
  shows "sorted ys \<Longrightarrow> ys \<noteq> [] \<Longrightarrow> last ys = Max (set ys)"
proof (induction ys)
  case Nil
  then show ?case by simp
next
  case (Cons y ys)
  show ?case
  proof (cases "ys = []")
    case True
    then show ?thesis by simp
  next
    case False
    with Cons have l: "last ys = Max (set ys)" and le: "\<forall>z\<in>set ys. y \<le> z"
      by simp_all
    from False obtain z where "z \<in> set ys"
      by (cases ys) auto
    with False le have "y \<le> Max (set ys)"
      by (auto simp: Max_ge_iff)
    with False l show ?thesis
      by (simp add: max_absorb2)
  qed
qed

lemma last_sorted_Max:
  assumes "sorted (map fecha xs)" and "xs \<noteq> []"
  shows "fecha (last xs) = Max (fecha ` set xs)"
  using sorted_last_Max [of "map fecha xs"] assms by (simp add: last_map)

lemma group_of_city:
  assumes "r \<in> set df" and "ciudad r = Some k"
  shows "\<exists>row. group_last (filter (\<lambda>r. ciudad r = Some k) (sort_key fecha df)) = [row]
      \<and> ciudad row = Some k
      \<and> fecha row = Max (fecha ` {r \<in> set df. ciudad r = Some k})
      \<and> (\<exists>r\<in>set df. ciudad r = Some k \<and> id_col r = id_col row \<and> fecha r = fecha row)"
proof -
  let ?g = "filter (\<lambda>r. ciudad r = Some k) (sort_key fecha df)"
  from assms have ne: "?g \<noteq> []"
    by (auto simp: filter_empty_conv)
  have srt: "sorted (map fecha ?g)"
    by (simp add: sorted_filter)
  from ne have hd: "ciudad (hd ?g) = Some k"
    using hd_in_set [OF ne] by simp
  from ne have lst: "last ?g \<in> set df \<and> ciudad (last ?g) = Some k"
    using last_in_set [OF ne] by simp
  have mx: "fecha (last ?g) = Max (fecha ` {r \<in> set df. ciudad r = Some k})"
    using last_sorted_Max [OF srt ne] by (simp add: Collect_conj_eq Int_commute)
  from group_last_row [OF ne] obtain row where row: "group_last ?g = [row]"
    "ciudad row = ciudad (hd ?g)" "id_col row = id_col (last ?g)" "fecha row = fecha (last ?g)"
    by blast
  with hd lst mx show ?thesis
    by auto
qed

lemma concat_groups_keys:
  "(\<forall>k\<in>set ks. \<exists>row. g k = [row] \<and> ciudad row = Some k) \<Longrightarrow>
     map ciudad (concat (map g ks)) = map Some ks"
  by (induction ks) auto

lemma df_map_keys:
  "set (sort (remdups (dropna (map ciudad (sort_key fecha df))))) = {k. \<exists>r\<in>set df. ciudad r = Some k}"
  using set_dropna_map [of ciudad "sort_key fecha df"] by simp

lemma df_map_one_row_per_city:
  "map ciudad (df_map df) = map Some (sort (remdups (dropna (map ciudad (sort_key fecha df)))))"
  "distinct (map ciudad (df_map df))"
  "set (map ciudad (df_map df)) = Some ` {k. \<exists>r\<in>set df. ciudad r = Some k}"
proof -
  let ?keys = "sort (remdups (dropna (map ciudad (sort_key fecha df))))"
  let ?g = "\<lambda>k. group_last (filter (\<lambda>r. ciudad r = Some k) (sort_key fecha df))"
  have "\<forall>k\<in>set ?keys. \<exists>row. ?g k = [row] \<and> ciudad row = Some k"
  proof
    fix k
    assume "k \<in> set ?keys"
    then obtain r where "r \<in> set df" "ciudad r = Some k"
      unfolding df_map_keys by blast
    from group_of_city [OF this] show "\<exists>row. ?g k = [row] \<and> ciudad row = Some k"
      by blast
  qed
  then have "map ciudad (concat (map ?g ?keys)) = map Some ?keys"
    by (rule concat_groups_keys)
  then show m: "map ciudad (df_map df) = map Some ?keys"
    by (simp add: df_map_def Let_def)
  show "distinct (map ciudad (df_map df))"
    unfolding m by (simp add: distinct_map)
  show "set (map ciudad (df_map df)) = Some ` {k. \<exists>r\<in>set df. ciudad r = Some k}"
    unfolding m set_map df_map_keys ..
qed

lemma df_map_row_latest:
  assumes "row \<in> set (df_map df)"
  shows "\<exists>k. ciudad row = Some k
      \<and> fecha row = Max (fecha ` {r \<in> set df. ciudad r = Some k})
      \<and> (\<exists>r\<in>set df. ciudad r = Some k \<and> id_col r = id_col row \<and> fecha r = fecha row)"
proof -
  from assms obtain k where k: "k \<in> set (sort (remdups (dropna (map ciudad (sort_key fecha df)))))"
    and row: "row \<in> set (group_last (filter (\<lambda>r. ciudad r = Some k) (sort_key fecha df)))"
    by (auto simp: df_map_def Let_def)
  from k obtain r where "r \<in> set df" "ciudad r = Some k"
    unfolding df_map_keys by blast
  from group_of_city [OF this] row show ?thesis
    by auto
qed

text \<open>
  Claim C8 asks that the snapshot holds, for each city, one of the city's readings: one
  with the greatest timestamp. The earlier variant of the dashboard announces the
  snapshot the same way (its comment reads "ultima lectura por ciudad"). The code does
  not do that when the latest reading has a null cell: \<^verbatim>\<open>GroupBy.last()\<close> takes the last
  non-null entry of each column on its own. For Austin with a reading of AQI 45 at time
  100 and a reading without AQI and label at time 300, the snapshot row has the key and
  timestamp of the second reading and the AQI and label of the first; it is neither of
  the two readings.
\<close>

theorem df_map_mixes_readings:
  "df_map [austin_45, austin_null]
     = [\<lparr> id_col = 3, fecha = 300, ciudad = Some ''Austin'', estado = Some ''TX'',
          latitud = Some 30.27, longitud = Some (- 97.74), contaminante = Some ''O3'',
          aqi = Some 45, categoria = Some ''Good'' \<rparr>]
   \<and> df_map [austin_45, austin_null] \<noteq> [austin_null]
   \<and> hd (df_map [austin_45, austin_null]) \<notin> set [austin_45, austin_null]"
  by (simp add: df_map_def group_last_def combine_last_def last_valid_def austin_45_def austin_null_def)

end
